theory Spec2Isabelle
  imports Complex_Main
begin

section \<open>Data model of the transport package\<close>

text \<open>
  Go strings and byte slices are modelled as HOL strings (lists of bytes), Go \<open>int\<close> as
  \<open>int\<close>. The constants of \<open>net/http\<close> that the package names are written out with
  their numeric values.
\<close>

type_synonym bytes = string

type_synonym ErrorCode = string

definition ErrCodeInvalidAPIKey :: ErrorCode where
  "ErrCodeInvalidAPIKey = ''INVALID_API_KEY''"

definition ErrCodeInsufficientFunds :: ErrorCode where
  "ErrCodeInsufficientFunds = ''INSUFFICIENT_CREDITS''"

definition ErrCodeRateLimit :: ErrorCode where
  "ErrCodeRateLimit = ''RATE_LIMIT_EXCEEDED''"

definition ErrCodeInternal :: ErrorCode where
  "ErrCodeInternal = ''INTERNAL_ERROR''"

definition StatusUnauthorized :: int where
  "StatusUnauthorized = 401"

definition StatusPaymentRequired :: int where
  "StatusPaymentRequired = 402"

definition StatusTooManyRequests :: int where
  "StatusTooManyRequests = 429"

definition StatusInternalServerError :: int where
  "StatusInternalServerError = 500"

definition StatusBadGateway :: int where
  "StatusBadGateway = 502"

definition StatusServiceUnavailable :: int where
  "StatusServiceUnavailable = 503"

definition StatusGatewayTimeout :: int where
  "StatusGatewayTimeout = 504"

text \<open>
  \<open>APIError\<close>: the struct of errors.go. \<open>Params\<close> (a \<open>map[string]any\<close>) is kept as an
  association list of keys and the JSON text of their values.
\<close>

record APIError =
  Code :: ErrorCode
  Message :: string
  Params :: "(string \<times> string) list"
  StatusCode :: int
  RequestID :: string

text \<open>\<open>RequestError\<close>: operation name and the text of the wrapped cause.\<close>

record RequestError =
  Op :: string
  Err :: string

text \<open>
  The values of Go's \<open>error\<close> interface that reach the package: a \<open>*APIError\<close>, a
  \<open>*RequestError\<close>, one of the two errors of a context (\<open>context.Canceled\<close>,
  \<open>context.DeadlineExceeded\<close>), or any other error, identified by its text.
\<close>

datatype ctx_error = Canceled | DeadlineExceeded

datatype error = APIErr APIError | ReqErr RequestError | CtxErr ctx_error | OtherErr string

subsection \<open>Retry verdict (errors.go)\<close>

text \<open>\<open>isRetryableStatus\<close>: the switch over five status constants, false otherwise.\<close>

definition isRetryableStatus :: "int \<Rightarrow> bool" where
  "isRetryableStatus code =
     (if code = StatusTooManyRequests \<or> code = StatusInternalServerError
         \<or> code = StatusBadGateway \<or> code = StatusServiceUnavailable
         \<or> code = StatusGatewayTimeout
      then True else False)"

definition Retryable :: "APIError \<Rightarrow> bool" where
  "Retryable e = isRetryableStatus (StatusCode e)"

section \<open>The validator package\<close>

text \<open>
  A \<open>float64\<close> argument is compared with constants only, and comparisons of floating
  point numbers are exact, so a value is modelled as the rational it denotes, one of the
  two infinities, or NaN (every comparison with NaN is false).
\<close>

datatype float64 = Finite rat | PosInf | NegInf | NaN

fun f_eq :: "float64 \<Rightarrow> float64 \<Rightarrow> bool" where
  "f_eq (Finite a) (Finite b) = (a = b)"
| "f_eq PosInf PosInf = True"
| "f_eq NegInf NegInf = True"
| "f_eq _ _ = False"

fun f_lt :: "float64 \<Rightarrow> float64 \<Rightarrow> bool" where
  "f_lt NaN _ = False"
| "f_lt _ NaN = False"
| "f_lt (Finite a) (Finite b) = (a < b)"
| "f_lt NegInf NegInf = False"
| "f_lt NegInf _ = True"
| "f_lt _ NegInf = False"
| "f_lt PosInf _ = False"
| "f_lt (Finite a) PosInf = True"

definition f_gt :: "float64 \<Rightarrow> float64 \<Rightarrow> bool" where
  "f_gt a b = f_lt b a"

datatype validation_error =
    ErrEmptyPrompt | ErrPromptTooLong | ErrEmptyInstruction | ErrEmptyReferenceImage
  | ErrNoReferenceImages | ErrTooManyReferenceImages | ErrInvalidAspectRatio
  | ErrInvalidUpscaleFactor | ErrInvalidScaling

definition MinScaling :: float64 where
  "MinScaling = Finite 1"

definition MaxScaling :: float64 where
  "MaxScaling = Finite 15"

text \<open>\<open>ValidateScaling\<close>: \<open>None\<close> is the nil error.\<close>

definition ValidateScaling :: "float64 \<Rightarrow> validation_error option" where
  "ValidateScaling scaling =
     (if f_eq scaling (Finite 0) then None
      else if f_lt scaling MinScaling \<or> f_gt scaling MaxScaling then Some ErrInvalidScaling
      else None)"

section \<open>The retry orchestrator (errors.go, second part)\<close>

type_synonym Duration = int

record Retrier =
  maxRetries :: int
  minWait :: Duration
  maxWait :: Duration

subsection \<open>Backoff\<close>

text \<open>
  \<open>calculateBackoff\<close> computes in \<open>float64\<close>. The model computes the same expression
  in exact rational arithmetic: rounding, overflow to an infinity and NaN are outside it.
  The value of \<open>rand.Float64()\<close>, a number in [0, 1), is the argument \<open>x\<close>.
  \<open>math_Pow\<close> is \<open>math.Pow\<close> at an integer exponent, \<open>Duration_of\<close> the conversion
  \<open>time.Duration(backoff)\<close>, which drops the fraction (truncation toward zero).
\<close>

definition math_Pow :: "rat \<Rightarrow> int \<Rightarrow> rat" where
  "math_Pow x y = (if 0 \<le> y then x ^ nat y else 1 / x ^ nat (- y))"

definition Duration_of :: "rat \<Rightarrow> Duration" where
  "Duration_of x = (if 0 \<le> x then \<lfloor>x\<rfloor> else \<lceil>x\<rceil>)"

definition calculateBackoff :: "Retrier \<Rightarrow> int \<Rightarrow> rat \<Rightarrow> Duration" where
  "calculateBackoff r attempt x =
     (let backoff = of_int (minWait r) * math_Pow 2 (attempt - 1);
          jitter = backoff * (1 / 4) * (x * 2 - 1);
          backoff = backoff + jitter;
          backoff = (if backoff > of_int (maxWait r) then of_int (maxWait r) else backoff)
      in Duration_of backoff)"

subsection \<open>The caller's context, the attempt function and the trace of a call\<close>

text \<open>
  What the loop observes of its \<open>context.Context\<close>:
  \<^item> \<open>doneFirst ctx attempt backoff\<close> is the outcome of the \<open>select\<close> in
    \<open>wait(ctx, attempt)\<close>, whose timer runs for \<open>backoff\<close>: \<open>Some e\<close> when the
    receive from \<open>ctx.Done()\<close> is taken, \<open>e\<close> being what \<open>ctx.Err()\<close> returns then,
    and \<open>None\<close> when the timer fires first;
  \<^item> \<open>errAfter ctx attempt\<close> is what \<open>ctx.Err()\<close> returns when it is called after the
    call of \<open>fn\<close> in iteration \<open>attempt\<close> has failed (\<open>None\<close> is nil).
\<close>

record Context =
  doneFirst :: "int \<Rightarrow> Duration \<Rightarrow> ctx_error option"
  errAfter :: "int \<Rightarrow> ctx_error option"

text \<open>
  The closure \<open>fn\<close> is given by the pair (response, error) that its i-th call returns,
  counted from 0; \<open>None\<close> is nil. The random source is given by the value that
  \<open>rand.Float64()\<close> yields in the backoff computation of each attempt. A trace counts the
  calls of \<open>fn\<close> and lists the timers of the backoff waits that were entered.
\<close>

type_synonym 'r attempt_fn = "nat \<Rightarrow> 'r option \<times> error option"

record Trace =
  calls :: nat
  waits :: "Duration list"

definition call_fn :: "'r attempt_fn \<Rightarrow> Trace \<Rightarrow> ('r option \<times> error option) \<times> Trace" where
  "call_fn fn t = (fn (calls t), t\<lparr>calls := Suc (calls t)\<rparr>)"

definition wait :: "Retrier \<Rightarrow> (int \<Rightarrow> rat) \<Rightarrow> Context \<Rightarrow> int \<Rightarrow> Trace \<Rightarrow> error option \<times> Trace" where
  "wait r rnd ctx attempt t =
     (let backoff = calculateBackoff r attempt (rnd attempt);
          t' = t\<lparr>waits := waits t @ [backoff]\<rparr>
      in case doneFirst ctx attempt backoff of
           Some e \<Rightarrow> (Some (CtxErr e), t')
         | None \<Rightarrow> (None, t'))"

definition shouldRetry :: "error \<Rightarrow> bool" where
  "shouldRetry err = (case err of APIErr apiErr \<Rightarrow> Retryable apiErr | _ \<Rightarrow> False)"

subsection \<open>Do and DoRaw\<close>

record Response =
  resp_Body :: bytes
  resp_Status :: int
  resp_RequestID :: string

record RawResponse =
  Data :: bytes
  ContentType :: string
  Version :: string
  ContentViolation :: bool
  raw_RequestID :: string
  CreditsUsed :: int
  CreditsRemaining :: int

text \<open>
  The \<open>for\<close> loop of \<open>Do\<close>, with the loop variable \<open>attempt\<close> and the variable
  \<open>lastErr\<close> as arguments. The result is the returned pair and the trace.
\<close>

function Do_loop ::
  "Retrier \<Rightarrow> (int \<Rightarrow> rat) \<Rightarrow> Context \<Rightarrow> 'r attempt_fn \<Rightarrow> error option \<Rightarrow> int \<Rightarrow> Trace
     \<Rightarrow> ('r option \<times> error option) \<times> Trace" where
  "Do_loop r rnd ctx fn lastErr attempt t =
     (if attempt \<le> maxRetries r then
        (case (if attempt > 0 then wait r rnd ctx attempt t else (None, t)) of
           (Some err, t1) \<Rightarrow> ((None, Some err), t1)
         | (None, t1) \<Rightarrow>
             (case call_fn fn t1 of
                ((resp, None), t2) \<Rightarrow> ((resp, None), t2)
              | ((resp, Some err), t2) \<Rightarrow>
                  if \<not> shouldRetry err then ((None, Some err), t2)
                  else if errAfter ctx attempt \<noteq> None
                    then ((None, map_option CtxErr (errAfter ctx attempt)), t2)
                  else Do_loop r rnd ctx fn (Some err) (attempt + 1) t2))
      else ((None, lastErr), t))"
  by pat_completeness auto
termination
  by (relation "measure (\<lambda>(r, rnd, ctx, fn, lastErr, attempt, t). nat (maxRetries r + 1 - attempt))")
    auto

function DoRaw_loop ::
  "Retrier \<Rightarrow> (int \<Rightarrow> rat) \<Rightarrow> Context \<Rightarrow> 'r attempt_fn \<Rightarrow> error option \<Rightarrow> int \<Rightarrow> Trace
     \<Rightarrow> ('r option \<times> error option) \<times> Trace" where
  "DoRaw_loop r rnd ctx fn lastErr attempt t =
     (if attempt \<le> maxRetries r then
        (case (if attempt > 0 then wait r rnd ctx attempt t else (None, t)) of
           (Some err, t1) \<Rightarrow> ((None, Some err), t1)
         | (None, t1) \<Rightarrow>
             (case call_fn fn t1 of
                ((resp, None), t2) \<Rightarrow> ((resp, None), t2)
              | ((resp, Some err), t2) \<Rightarrow>
                  if \<not> shouldRetry err then ((None, Some err), t2)
                  else if errAfter ctx attempt \<noteq> None
                    then ((None, map_option CtxErr (errAfter ctx attempt)), t2)
                  else DoRaw_loop r rnd ctx fn (Some err) (attempt + 1) t2))
      else ((None, lastErr), t))"
  by pat_completeness auto
termination
  by (relation "measure (\<lambda>(r, rnd, ctx, fn, lastErr, attempt, t). nat (maxRetries r + 1 - attempt))")
    auto

declare Do_loop.simps [simp del] DoRaw_loop.simps [simp del]

definition Do ::
  "Retrier \<Rightarrow> (int \<Rightarrow> rat) \<Rightarrow> Context \<Rightarrow> Response attempt_fn
     \<Rightarrow> (Response option \<times> error option) \<times> Trace" where
  "Do r rnd ctx fn = Do_loop r rnd ctx fn None 0 \<lparr>calls = 0, waits = []\<rparr>"

definition DoRaw ::
  "Retrier \<Rightarrow> (int \<Rightarrow> rat) \<Rightarrow> Context \<Rightarrow> RawResponse attempt_fn
     \<Rightarrow> (RawResponse option \<times> error option) \<times> Trace" where
  "DoRaw r rnd ctx fn = DoRaw_loop r rnd ctx fn None 0 \<lparr>calls = 0, waits = []\<rparr>"

subsection \<open>Scenarios of a call\<close>

text \<open>
  The predicates below describe runs of the loop; they are used to state properties and
  are not part of the program. Attempts are counted from 0, as the loop variable is:
  attempt number k of a specification sentence is iteration \<open>k - 1\<close>.
  \<^item> \<open>fails_retryably fn i\<close>: call \<open>i\<close> of \<open>fn\<close> returns an error that \<open>shouldRetry\<close>
    accepts (an API error with a retryable status);
  \<^item> \<open>backoff_at r rnd i\<close>: the timer of the wait before iteration \<open>i\<close>;
  \<^item> \<open>wait_passes r rnd ctx i\<close>: iteration \<open>i\<close> has no wait (\<open>i = 0\<close>) or its wait
    ends by its timer;
  \<^item> \<open>retried r rnd ctx fn i\<close>: iteration \<open>i\<close> runs to its end and the loop goes on: its
    wait passes, its call fails retryably and \<open>ctx.Err()\<close> is nil afterwards;
  \<^item> \<open>reaches r rnd ctx fn n\<close>: the loop makes call \<open>n\<close> of \<open>fn\<close>: \<open>n\<close> is within the
    budget, the iterations before it were retried and the wait of iteration \<open>n\<close> passes;
  \<^item> \<open>trace_at r rnd c n\<close>: the trace with \<open>c\<close> calls and the waits of iterations 1 to
    \<open>n\<close>; \<open>lastErr_at fn n\<close>: the value of \<open>lastErr\<close> on entry to iteration \<open>n\<close>.
\<close>

definition fails_retryably :: "'r attempt_fn \<Rightarrow> nat \<Rightarrow> bool" where
  "fails_retryably fn i = (case snd (fn i) of Some err \<Rightarrow> shouldRetry err | None \<Rightarrow> False)"

definition backoff_at :: "Retrier \<Rightarrow> (int \<Rightarrow> rat) \<Rightarrow> nat \<Rightarrow> Duration" where
  "backoff_at r rnd i = calculateBackoff r (int i) (rnd (int i))"

definition wait_passes :: "Retrier \<Rightarrow> (int \<Rightarrow> rat) \<Rightarrow> Context \<Rightarrow> nat \<Rightarrow> bool" where
  "wait_passes r rnd ctx i = (i = 0 \<or> doneFirst ctx (int i) (backoff_at r rnd i) = None)"

definition retried :: "Retrier \<Rightarrow> (int \<Rightarrow> rat) \<Rightarrow> Context \<Rightarrow> 'r attempt_fn \<Rightarrow> nat \<Rightarrow> bool" where
  "retried r rnd ctx fn i =
     (wait_passes r rnd ctx i \<and> fails_retryably fn i \<and> errAfter ctx (int i) = None)"

definition reaches :: "Retrier \<Rightarrow> (int \<Rightarrow> rat) \<Rightarrow> Context \<Rightarrow> 'r attempt_fn \<Rightarrow> nat \<Rightarrow> bool" where
  "reaches r rnd ctx fn n =
     (int n \<le> maxRetries r \<and> (\<forall>i<n. retried r rnd ctx fn i) \<and> wait_passes r rnd ctx n)"

definition trace_at :: "Retrier \<Rightarrow> (int \<Rightarrow> rat) \<Rightarrow> nat \<Rightarrow> nat \<Rightarrow> Trace" where
  "trace_at r rnd c n = \<lparr>calls = c, waits = map (backoff_at r rnd) [1..<Suc n]\<rparr>"

definition lastErr_at :: "'r attempt_fn \<Rightarrow> nat \<Rightarrow> error option" where
  "lastErr_at fn n = (if n = 0 then None else snd (fn (n - 1)))"

section \<open>The transport client (client.go)\<close>

text \<open>
  Functions of the Go standard library are parameters of the model, collected in the record
  \<open>GoLib\<close>:
  \<^item> \<open>json_Marshal\<close>: \<open>json.Marshal\<close>, an error text or the serialization;
  \<^item> \<open>json_Unmarshal\<close>: \<open>json.Unmarshal(body, apiErr)\<close> on an \<open>APIError\<close> whose
    \<open>Code\<close>, \<open>Message\<close> and \<open>Params\<close> are still zero: the error it returns and the values
    these three fields hold afterwards (the fields tagged \<open>json:"-"\<close> are never written);
  \<^item> \<open>http_StatusText\<close>: \<open>http.StatusText\<close>;
  \<^item> \<open>fmt_Sscanf_d\<close>: \<open>fmt.Sscanf(val, "%d", &n)\<close>, the number stored in \<open>n\<close> when the
    scan succeeds, \<open>None\<close> when it fails (and \<open>n\<close> is left as it was);
  \<^item> \<open>http_NewRequest\<close>: the error of \<open>http.NewRequestWithContext\<close> for a method and
    URL, if any;
  \<^item> \<open>http_Do\<close>: one round trip of \<open>httpClient.Do\<close>, an error text or the response.

  A header is a map from canonical keys to value lists; every key the package uses is in
  canonical form already, so \<open>Header.Get\<close> is a lookup of the first value. The body of a
  response is given by what \<open>io.ReadAll\<close> returns for it: the bytes and the error, if any.
  A \<open>bytes.Reader\<close> is a buffer and a read offset. Logging has no effect on any result
  and is left out.
\<close>

type_synonym Header = "string \<rightharpoonup> string list"

definition Header_Get :: "Header \<Rightarrow> string \<Rightarrow> string" where
  "Header_Get h key = (case h key of None \<Rightarrow> [] | Some [] \<Rightarrow> [] | Some (v # vs) \<Rightarrow> v)"


record Reader =
  buf :: bytes
  off :: nat



record HTTPRequest =
  http_Method :: string
  http_URL :: string
  http_Header :: Header
  http_Body :: "Reader option"
  GetBody :: "(unit \<Rightarrow> Reader \<times> error option) option"

record HTTPResponse =
  hr_StatusCode :: int
  hr_Header :: Header
  hr_Body :: bytes
  hr_ReadErr :: "string option"

record Decoded =
  dec_err :: "string option"
  dec_Code :: ErrorCode
  dec_Message :: string
  dec_Params :: "(string \<times> string) list"

record 'b GoLib =
  json_Marshal :: "'b \<Rightarrow> string + bytes"
  json_Unmarshal :: "bytes \<Rightarrow> Decoded"
  http_StatusText :: "int \<Rightarrow> string"
  fmt_Sscanf_d :: "string \<Rightarrow> int option"
  http_NewRequest :: "string \<Rightarrow> string \<Rightarrow> string option"
  http_Do :: "HTTPRequest \<Rightarrow> string + HTTPResponse"


record 'b Request =
  Method :: string
  Path :: string
  Body :: "'b option"
  Accept :: string
  Breadcrumb :: string

definition ParseError :: "'b GoLib \<Rightarrow> HTTPResponse \<Rightarrow> bytes \<Rightarrow> APIError" where
  "ParseError lib resp body =
     (let d = json_Unmarshal lib body;
          apiErr = \<lparr>Code = dec_Code d, Message = dec_Message d, Params = dec_Params d,
                    StatusCode = hr_StatusCode resp,
                    RequestID = Header_Get (hr_Header resp) ''X-Reve-Request-Id''\<rparr>;
          apiErr = (if dec_err d \<noteq> None
                    then (let apiErr = apiErr\<lparr>Message := body\<rparr>
                          in if Message apiErr = []
                             then apiErr\<lparr>Message := http_StatusText lib (hr_StatusCode resp)\<rparr>
                             else apiErr)
                    else apiErr)
      in if Code apiErr = [] then
           (if hr_StatusCode resp = StatusUnauthorized then apiErr\<lparr>Code := ErrCodeInvalidAPIKey\<rparr>
            else if hr_StatusCode resp = StatusPaymentRequired
              then apiErr\<lparr>Code := ErrCodeInsufficientFunds\<rparr>
            else if hr_StatusCode resp = StatusTooManyRequests then apiErr\<lparr>Code := ErrCodeRateLimit\<rparr>
            else if hr_StatusCode resp = StatusInternalServerError
              then apiErr\<lparr>Code := ErrCodeInternal\<rparr>
            else apiErr)
         else apiErr)"




section \<open>Concrete inputs\<close>

text \<open>
  The inputs at which the theorems below are instantiated. \<open>test_retrier\<close> is the
  retrier of the repository's \<open>TestRetry\<close> (3 retries, 10 ms and 100 ms, in nanoseconds);
  \<open>no_jitter\<close> is a random source that always yields 0.5; \<open>background\<close> is a context
  that is never cancelled; \<open>cancelled_during_attempt k e\<close> is a context cancelled while
  call \<open>k\<close> of \<open>fn\<close> runs, \<open>cancelled_during_wait k e\<close> one cancelled during the wait
  before it; \<open>req_error\<close> is a Request-level error.
\<close>

definition always_fails :: "error \<Rightarrow> 'r attempt_fn" where
  "always_fails err i = (None, Some err)"

definition fails_then :: "nat \<Rightarrow> error \<Rightarrow> 'r option \<times> error option \<Rightarrow> 'r attempt_fn" where
  "fails_then n err final i = (if i < n then (None, Some err) else final)"

definition background :: Context where
  "background = \<lparr>doneFirst = (\<lambda>attempt backoff. None), errAfter = (\<lambda>attempt. None)\<rparr>"

definition cancelled_during_attempt :: "int \<Rightarrow> ctx_error \<Rightarrow> Context" where
  "cancelled_during_attempt k e =
     \<lparr>doneFirst = (\<lambda>attempt backoff. if k < attempt then Some e else None),
      errAfter = (\<lambda>attempt. if k \<le> attempt then Some e else None)\<rparr>"

definition cancelled_during_wait :: "int \<Rightarrow> ctx_error \<Rightarrow> Context" where
  "cancelled_during_wait k e =
     \<lparr>doneFirst = (\<lambda>attempt backoff. if k \<le> attempt then Some e else None),
      errAfter = (\<lambda>attempt. if k \<le> attempt then Some e else None)\<rparr>"

definition test_retrier :: Retrier where
  "test_retrier = \<lparr>maxRetries = 3, minWait = 10000000, maxWait = 100000000\<rparr>"

definition no_jitter :: "int \<Rightarrow> rat" where
  "no_jitter attempt = 1 / 2"

definition err_503 :: error where
  "err_503 = APIErr \<lparr>Code = [], Message = ''Service Unavailable'', Params = [],
                      StatusCode = 503, RequestID = []\<rparr>"

definition err_400 :: error where
  "err_400 = APIErr \<lparr>Code = ''MISSING_REQUIRED_PARAMETER'', Message = ''Prompt is required'',
                      Params = [], StatusCode = 400, RequestID = []\<rparr>"

definition ok_response :: Response where
  "ok_response = \<lparr>resp_Body = ''{}'', resp_Status = 200, resp_RequestID = []\<rparr>"

definition ok_raw :: RawResponse where
  "ok_raw = \<lparr>Data = ''PNG'', ContentType = ''image/png'', Version = [], ContentViolation = False,
              raw_RequestID = [], CreditsUsed = 18, CreditsRemaining = 82\<rparr>"

definition req_error :: error where
  "req_error = ReqErr \<lparr>Op = ''http'', Err = ''connection refused''\<rparr>"


definition test_lib :: "string + HTTPResponse \<Rightarrow> string GoLib" where
  "test_lib outcome =
     \<lparr>json_Marshal = (\<lambda>b. Inr (''{prompt:'' @ b @ ''}'')),
      json_Unmarshal = (\<lambda>body.
        if body = ''{error_code:PROMPT_TOO_LONG,message:too long}''
        then \<lparr>dec_err = None, dec_Code = ''PROMPT_TOO_LONG'', dec_Message = ''too long'',
              dec_Params = []\<rparr>
        else \<lparr>dec_err = Some ''invalid character'', dec_Code = [], dec_Message = [],
              dec_Params = []\<rparr>),
      http_StatusText = (\<lambda>code. if code = 200 then ''OK''
                                else if code = 503 then ''Service Unavailable'' else []),
      fmt_Sscanf_d = (\<lambda>val. if val = ''18'' then Some 18
                              else if val = ''82'' then Some 82 else None),
      http_NewRequest = (\<lambda>method url. None),
      http_Do = (\<lambda>httpReq. outcome)\<rparr>"






definition resp_failed :: "int \<Rightarrow> bytes \<Rightarrow> HTTPResponse" where
  "resp_failed status body =
     \<lparr>hr_StatusCode = status, hr_Header = Map.empty, hr_Body = body, hr_ReadErr = None\<rparr>"

section \<open>Auxiliary facts about the loop\<close>

lemma wait_pass:
  "wait_passes r rnd ctx n \<Longrightarrow>
   (if int n > 0 then wait r rnd ctx (int n) (trace_at r rnd n (n - 1)) else (None, trace_at r rnd n (n - 1)))
     = (None, trace_at r rnd n n)"
  by (cases n) (auto simp: wait_passes_def wait_def trace_at_def Let_def backoff_at_def)

lemma Do_loop_step_retried:
  assumes "retried r rnd ctx fn n" and "int n \<le> maxRetries r"
  shows "Do_loop r rnd ctx fn l (int n) (trace_at r rnd n (n - 1))
         = Do_loop r rnd ctx fn (lastErr_at fn (Suc n)) (int (Suc n)) (trace_at r rnd (Suc n) n)"
proof -
  from assms(1) have wp: "wait_passes r rnd ctx n" and fr: "fails_retryably fn n"
    and ea: "errAfter ctx (int n) = None"
    by (simp_all add: retried_def)
  from fr obtain resp err where fn: "fn n = (resp, Some err)" and sr: "shouldRetry err"
    by (cases "fn n") (auto simp: fails_retryably_def split: option.splits)
  have cf: "call_fn fn (trace_at r rnd n n) = ((resp, Some err), trace_at r rnd (Suc n) n)"
    by (simp add: call_fn_def trace_at_def fn)
  show ?thesis
    apply (subst Do_loop.simps)
    apply (simp only: wait_pass[OF wp])
    using assms(2) by (simp add: cf sr ea lastErr_at_def fn add.commute)
qed

lemma Do_loop_retried:
  assumes "\<forall>i<n. retried r rnd ctx fn i" and "int n \<le> maxRetries r + 1"
  shows "Do_loop r rnd ctx fn None 0 \<lparr>calls = 0, waits = []\<rparr>
         = Do_loop r rnd ctx fn (lastErr_at fn n) (int n) (trace_at r rnd n (n - 1))"
  using assms
proof (induction n)
  case 0
  show ?case by (simp add: lastErr_at_def trace_at_def)
next
  case (Suc n)
  then have "Do_loop r rnd ctx fn None 0 \<lparr>calls = 0, waits = []\<rparr>
         = Do_loop r rnd ctx fn (lastErr_at fn n) (int n) (trace_at r rnd n (n - 1))"
    by simp
  also have "\<dots> = Do_loop r rnd ctx fn (lastErr_at fn (Suc n)) (int (Suc n)) (trace_at r rnd (Suc n) n)"
    using Suc.prems by (intro Do_loop_step_retried) auto
  finally show ?case by simp
qed

lemma DoRaw_loop_eq: "DoRaw_loop r rnd ctx fn l a t = Do_loop r rnd ctx fn l a t"
proof (induction r rnd ctx fn l a t rule: Do_loop.induct)
  case (1 r rnd ctx fn lastErr attempt t)
  show ?case
    apply (subst DoRaw_loop.simps)
    apply (subst Do_loop.simps)
    using 1 by (auto split: prod.splits option.splits)
qed

lemma Do_loop_reaches:
  assumes "reaches r rnd ctx fn n"
  shows "Do_loop r rnd ctx fn None 0 \<lparr>calls = 0, waits = []\<rparr>
         = (case call_fn fn (trace_at r rnd n n) of
              ((resp, None), t2) \<Rightarrow> ((resp, None), t2)
            | ((resp, Some err), t2) \<Rightarrow>
                if \<not> shouldRetry err then ((None, Some err), t2)
                else if errAfter ctx (int n) \<noteq> None
                  then ((None, map_option CtxErr (errAfter ctx (int n))), t2)
                else Do_loop r rnd ctx fn (Some err) (int n + 1) t2)"
  (is "_ = ?rhs")
proof -
  from assms have le: "int n \<le> maxRetries r" and pre: "\<forall>i<n. retried r rnd ctx fn i"
    and wp: "wait_passes r rnd ctx n"
    by (simp_all add: reaches_def)
  have "Do_loop r rnd ctx fn None 0 \<lparr>calls = 0, waits = []\<rparr>
         = Do_loop r rnd ctx fn (lastErr_at fn n) (int n) (trace_at r rnd n (n - 1))"
    using pre le by (intro Do_loop_retried) auto
  also have "\<dots> = ?rhs"
    apply (subst Do_loop.simps)
    apply (simp only: wait_pass[OF wp])
    using le by simp
  finally show ?thesis .
qed

lemma Do_loop_success:
  assumes "reaches r rnd ctx fn n" and "fn n = (resp, None)"
  shows "Do_loop r rnd ctx fn None 0 \<lparr>calls = 0, waits = []\<rparr>
         = ((resp, None), trace_at r rnd (Suc n) n)"
  by (simp add: Do_loop_reaches[OF assms(1)] call_fn_def trace_at_def assms(2))

lemma Do_loop_nonretry:
  assumes "reaches r rnd ctx fn n" and "fn n = (resp, Some err)" and "\<not> shouldRetry err"
  shows "Do_loop r rnd ctx fn None 0 \<lparr>calls = 0, waits = []\<rparr>
         = ((None, Some err), trace_at r rnd (Suc n) n)"
  by (simp add: Do_loop_reaches[OF assms(1)] call_fn_def trace_at_def assms(2,3))

lemma Do_loop_cancel_after:
  assumes "reaches r rnd ctx fn n" and "fn n = (resp, Some err)" and "shouldRetry err"
    and "errAfter ctx (int n) = Some e"
  shows "Do_loop r rnd ctx fn None 0 \<lparr>calls = 0, waits = []\<rparr>
         = ((None, Some (CtxErr e)), trace_at r rnd (Suc n) n)"
  by (simp add: Do_loop_reaches[OF assms(1)] call_fn_def trace_at_def assms(2,3,4))

lemma Do_loop_exhaust:
  assumes "reaches r rnd ctx fn n" and "int n = maxRetries r" and "fn n = (resp, Some err)"
    and "shouldRetry err" and "errAfter ctx (int n) = None"
  shows "Do_loop r rnd ctx fn None 0 \<lparr>calls = 0, waits = []\<rparr>
         = ((None, Some err), trace_at r rnd (Suc n) n)"
proof -
  have "Do_loop r rnd ctx fn None 0 \<lparr>calls = 0, waits = []\<rparr>
         = Do_loop r rnd ctx fn (Some err) (int n + 1) (trace_at r rnd (Suc n) n)"
    by (simp add: Do_loop_reaches[OF assms(1)] call_fn_def trace_at_def assms(3,4,5))
  also have "\<dots> = ((None, Some err), trace_at r rnd (Suc n) n)"
    by (subst Do_loop.simps) (simp add: assms(2))
  finally show ?thesis .
qed

lemma Do_loop_cancel_wait:
  assumes "int n \<le> maxRetries r" and "\<forall>i<n. retried r rnd ctx fn i" and "0 < n"
    and "doneFirst ctx (int n) (backoff_at r rnd n) = Some e"
  shows "Do_loop r rnd ctx fn None 0 \<lparr>calls = 0, waits = []\<rparr>
         = ((None, Some (CtxErr e)), trace_at r rnd n n)"
proof -
  have w: "(if int n > 0 then wait r rnd ctx (int n) (trace_at r rnd n (n - 1))
             else (None, trace_at r rnd n (n - 1)))
           = (Some (CtxErr e), trace_at r rnd n n)"
    using assms(3,4) by (cases n) (auto simp: wait_def trace_at_def Let_def backoff_at_def)
  have "Do_loop r rnd ctx fn None 0 \<lparr>calls = 0, waits = []\<rparr>
         = Do_loop r rnd ctx fn (lastErr_at fn n) (int n) (trace_at r rnd n (n - 1))"
    using assms(1,2) by (intro Do_loop_retried) auto
  also have "\<dots> = ((None, Some (CtxErr e)), trace_at r rnd n n)"
    apply (subst Do_loop.simps)
    apply (simp only: w)
    using assms(1) by simp
  finally show ?thesis .
qed

lemma shouldRetry_503: "shouldRetry err_503" 
  by (simp add: err_503_def shouldRetry_def Retryable_def isRetryableStatus_def StatusServiceUnavailable_def)

lemma reaches_background:
  "int n \<le> maxRetries r \<Longrightarrow> n \<le> k \<Longrightarrow> reaches r rnd background (fails_then k err_503 final) n"
  by (simp add: reaches_def retried_def wait_passes_def background_def fails_retryably_def
      fails_then_def shouldRetry_503)

section \<open>Retry verdict\<close>

text \<open>
  C2. The retry verdict of an API error is decided by its HTTP status alone: it is true
  exactly for the statuses 429, 500, 502, 503 and 504, and replacing the error code (or
  the message) of the error leaves the verdict unchanged.
\<close>

theorem Retryable_status_only:
  "Retryable e = (StatusCode e \<in> {429, 500, 502, 503, 504})
   \<and> Retryable (e\<lparr>Code := c, Message := m\<rparr>) = Retryable e"
  by (simp add: Retryable_def isRetryableStatus_def StatusTooManyRequests_def
      StatusInternalServerError_def StatusBadGateway_def StatusServiceUnavailable_def
      StatusGatewayTimeout_def)

section \<open>Scaling factor\<close>

text \<open>
  C9, as stated, fails: the scaling factor 0 (the zero value of an unset field) is
  accepted although it lies outside [1, 15].
\<close>

theorem ValidateScaling_zero_accepted:
  "\<not> (ValidateScaling (Finite 0) = None \<longleftrightarrow> (1 \<le> (0::rat) \<and> (0::rat) \<le> 15))"
  by (simp add: ValidateScaling_def)

text \<open>
  C9, amended. For every finite scaling factor s, ValidateScaling returns nil exactly when
  s is 0 or lies in [1, 15], and the invalid-scaling error otherwise; both infinities are
  rejected with the same error.
\<close>

theorem ValidateScaling_accepts:
  "ValidateScaling (Finite s)
     = (if s = 0 \<or> (1 \<le> s \<and> s \<le> 15) then None else Some ErrInvalidScaling)
   \<and> ValidateScaling PosInf = Some ErrInvalidScaling
   \<and> ValidateScaling NegInf = Some ErrInvalidScaling"
  by (auto simp add: ValidateScaling_def MinScaling_def MaxScaling_def f_gt_def)

section \<open>Success and exhaustion of the retry loop\<close>

text \<open>
  C1, as stated, fails when the caller's context is cancelled: with 3 retries, a call that
  fails with status 503 every time and a context cancelled while the fourth call runs,
  all four attempts are made and fail retryably, but Do and DoRaw return the context's
  error and not the last error observed.
\<close>

theorem retry_last_error_cancelled:
  "\<not> (fails_retryably (always_fails err_503 :: Response attempt_fn) 3
        \<longrightarrow> fst (Do test_retrier no_jitter (cancelled_during_attempt 3 Canceled)
                    (always_fails err_503))
              = (None, snd ((always_fails err_503 :: Response attempt_fn) 3)))
   \<and> Do test_retrier no_jitter (cancelled_during_attempt 3 Canceled) (always_fails err_503)
       = ((None, Some (CtxErr Canceled)),
          \<lparr>calls = 4, waits = [10000000, 20000000, 40000000]\<rparr>)
   \<and> DoRaw test_retrier no_jitter (cancelled_during_attempt 3 Canceled) (always_fails err_503)
       = ((None, Some (CtxErr Canceled)),
          \<lparr>calls = 4, waits = [10000000, 20000000, 40000000]\<rparr>)"
  by (simp add: Do_def DoRaw_def DoRaw_loop_eq Do_loop.simps test_retrier_def
      cancelled_during_attempt_def always_fails_def fails_retryably_def
      wait_def call_fn_def shouldRetry_503 no_jitter_def calculateBackoff_def math_Pow_def
      Duration_of_def) (simp add: err_503_def)

text \<open>
  C1, amended. Let the loop reach attempt n + 1 (n at most maxRetries; the n attempts before
  it failed with retryable API errors, no backoff wait was ended by the context and
  ctx.Err() was nil after each of them). If attempt n + 1 succeeds, Do and DoRaw return its
  response, having made exactly n + 1 calls and the n waits before them. If n = maxRetries
  and attempt n + 1 fails retryably too, and ctx.Err() is nil after it, they return that
  last error, having made exactly maxRetries + 1 calls.
\<close>

theorem retry_success_or_last_error:
  fixes fn :: "Response attempt_fn" and fnRaw :: "RawResponse attempt_fn"
  shows
    "(reaches r rnd ctx fn n \<and> fn n = (resp, None) \<longrightarrow>
        Do r rnd ctx fn
          = ((resp, None), \<lparr>calls = Suc n, waits = map (backoff_at r rnd) [1..<Suc n]\<rparr>))
   \<and> (reaches r rnd ctx fnRaw n \<and> fnRaw n = (raw, None) \<longrightarrow>
        DoRaw r rnd ctx fnRaw
          = ((raw, None), \<lparr>calls = Suc n, waits = map (backoff_at r rnd) [1..<Suc n]\<rparr>))
   \<and> (reaches r rnd ctx fn n \<and> int n = maxRetries r \<and> fails_retryably fn n
        \<and> errAfter ctx (int n) = None \<longrightarrow>
        Do r rnd ctx fn
          = ((None, snd (fn n)),
             \<lparr>calls = Suc n, waits = map (backoff_at r rnd) [1..<Suc n]\<rparr>))
   \<and> (reaches r rnd ctx fnRaw n \<and> int n = maxRetries r \<and> fails_retryably fnRaw n
        \<and> errAfter ctx (int n) = None \<longrightarrow>
        DoRaw r rnd ctx fnRaw
          = ((None, snd (fnRaw n)),
             \<lparr>calls = Suc n, waits = map (backoff_at r rnd) [1..<Suc n]\<rparr>))"
proof -
  have ex: "Do_loop r rnd ctx f None 0 \<lparr>calls = 0, waits = []\<rparr>
              = ((None, snd (f n)), trace_at r rnd (Suc n) n)"
    if "reaches r rnd ctx f n" and "int n = maxRetries r" and "fails_retryably f n"
      and "errAfter ctx (int n) = None" for f :: "'r attempt_fn"
  proof -
    from that(3) obtain x err where f: "f n = (x, Some err)" and sr: "shouldRetry err"
      by (cases "f n") (auto simp: fails_retryably_def split: option.splits)
    show ?thesis
      using Do_loop_exhaust[OF that(1,2) f sr that(4)] by (simp add: f)
  qed
  show ?thesis
    by (auto simp: Do_def DoRaw_def DoRaw_loop_eq Do_loop_success ex trace_at_def)
qed

theorem retry_success_or_last_error_witness:
  "Do test_retrier no_jitter background (fails_then 2 err_503 (Some ok_response, None))
     = ((Some ok_response, None), \<lparr>calls = 3, waits = [10000000, 20000000]\<rparr>)
   \<and> DoRaw test_retrier no_jitter background (fails_then 2 err_503 (Some ok_raw, None))
     = ((Some ok_raw, None), \<lparr>calls = 3, waits = [10000000, 20000000]\<rparr>)
   \<and> Do test_retrier no_jitter background (fails_then 4 err_503 (Some ok_response, None))
     = ((None, Some err_503), \<lparr>calls = 4, waits = [10000000, 20000000, 40000000]\<rparr>)
   \<and> DoRaw test_retrier no_jitter background (fails_then 4 err_503 (Some ok_raw, None))
     = ((None, Some err_503), \<lparr>calls = 4, waits = [10000000, 20000000, 40000000]\<rparr>)"
proof -
  have m: "maxRetries test_retrier = 3"
    by (simp add: test_retrier_def)
  have r2: "reaches test_retrier no_jitter background (fails_then 2 err_503 final) 2"
    and r3: "reaches test_retrier no_jitter background (fails_then 4 err_503 final) 3"
    for final :: "'r option \<times> error option"
    by (rule reaches_background; simp add: m)+
  have f: "fails_retryably (fails_then 4 err_503 final) 3"
    for final :: "'r option \<times> error option"
    by (simp add: fails_retryably_def fails_then_def shouldRetry_503)
  have e: "errAfter background 3 = None"
    by (simp add: background_def)
  note ev = backoff_at_def test_retrier_def no_jitter_def calculateBackoff_def
    math_Pow_def Duration_of_def upt_rec fails_then_def
  note a = retry_success_or_last_error[of test_retrier no_jitter background
        "fails_then 2 err_503 (Some ok_response, None)" 2 "Some ok_response"
        "fails_then 2 err_503 (Some ok_raw, None)" "Some ok_raw"]
  note b = retry_success_or_last_error[of test_retrier no_jitter background
        "fails_then 4 err_503 (Some ok_response, None)" 3 "Some ok_response"
        "fails_then 4 err_503 (Some ok_raw, None)" "Some ok_raw"]
  have 1: "Do test_retrier no_jitter background (fails_then 2 err_503 (Some ok_response, None))
     = ((Some ok_response, None), \<lparr>calls = 3, waits = [10000000, 20000000]\<rparr>)"
    using a r2[of "(Some ok_response, None)"] by (simp add: ev)
  have 2: "DoRaw test_retrier no_jitter background (fails_then 2 err_503 (Some ok_raw, None))
     = ((Some ok_raw, None), \<lparr>calls = 3, waits = [10000000, 20000000]\<rparr>)"
    using a r2[of "(Some ok_raw, None)"] by (simp add: ev)
  have 3: "Do test_retrier no_jitter background (fails_then 4 err_503 (Some ok_response, None))
     = ((None, Some err_503), \<lparr>calls = 4, waits = [10000000, 20000000, 40000000]\<rparr>)"
    using b r3[of "(Some ok_response, None)"] f[of "(Some ok_response, None)"] e m
    by (simp add: ev)
  have 4: "DoRaw test_retrier no_jitter background (fails_then 4 err_503 (Some ok_raw, None))
     = ((None, Some err_503), \<lparr>calls = 4, waits = [10000000, 20000000, 40000000]\<rparr>)"
    using b r3[of "(Some ok_raw, None)"] f[of "(Some ok_raw, None)"] e m
    by (simp add: ev)
  from 1 2 3 4 show ?thesis by blast
qed

section \<open>Non-retryable errors\<close>

text \<open>
  C3. If the loop reaches attempt n + 1 and that attempt fails with an error that is not
  retryable (an API error whose status is none of 429, 500, 502, 503, 504, or an error that
  is not an API error, such as a Request-level error), Do and DoRaw return that error at
  once, whatever the state of the context: the trace holds exactly the n + 1 calls made so
  far and the n waits before them, so no wait and no call follows. For n = 0 this is
  exactly one call and no wait.
\<close>

theorem nonretryable_error_returned_at_once:
  fixes fn :: "Response attempt_fn" and fnRaw :: "RawResponse attempt_fn"
  shows
    "(reaches r rnd ctx fn n \<and> fn n = (resp, Some err)
        \<and> (case err of APIErr e \<Rightarrow> StatusCode e \<notin> {429, 500, 502, 503, 504} | _ \<Rightarrow> True)
      \<longrightarrow> Do r rnd ctx fn
            = ((None, Some err),
               \<lparr>calls = Suc n, waits = map (backoff_at r rnd) [1..<Suc n]\<rparr>))
   \<and> (reaches r rnd ctx fnRaw n \<and> fnRaw n = (raw, Some err)
        \<and> (case err of APIErr e \<Rightarrow> StatusCode e \<notin> {429, 500, 502, 503, 504} | _ \<Rightarrow> True)
      \<longrightarrow> DoRaw r rnd ctx fnRaw
            = ((None, Some err),
               \<lparr>calls = Suc n, waits = map (backoff_at r rnd) [1..<Suc n]\<rparr>))"
proof -
  have nr: "\<not> shouldRetry err"
    if "case err of APIErr e \<Rightarrow> StatusCode e \<notin> {429, 500, 502, 503, 504} | _ \<Rightarrow> True"
    using that
    by (cases err)
      (simp_all add: shouldRetry_def Retryable_def isRetryableStatus_def
        StatusTooManyRequests_def StatusInternalServerError_def StatusBadGateway_def
        StatusServiceUnavailable_def StatusGatewayTimeout_def)
  show ?thesis
    by (auto simp: Do_def DoRaw_def DoRaw_loop_eq trace_at_def
        dest!: nr dest: Do_loop_nonretry)
qed

theorem nonretryable_error_returned_at_once_witness:
  "Do test_retrier no_jitter (cancelled_during_attempt 0 Canceled) (always_fails err_400)
     = ((None, Some err_400), \<lparr>calls = 1, waits = []\<rparr>)
   \<and> DoRaw test_retrier no_jitter background (fails_then 1 err_503 (None, Some req_error))
     = ((None, Some req_error), \<lparr>calls = 2, waits = [10000000]\<rparr>)"
proof -
  have r0: "reaches test_retrier no_jitter (cancelled_during_attempt 0 Canceled)
              (always_fails err_400 :: Response attempt_fn) 0"
    by (simp add: reaches_def wait_passes_def test_retrier_def)
  have r1: "reaches test_retrier no_jitter background
              (fails_then 1 err_503 (None, Some req_error) :: RawResponse attempt_fn) 1"
    by (rule reaches_background) (simp_all add: test_retrier_def)
  note ev = backoff_at_def test_retrier_def no_jitter_def calculateBackoff_def
    math_Pow_def Duration_of_def upt_rec fails_then_def always_fails_def
  have 1: "Do test_retrier no_jitter (cancelled_during_attempt 0 Canceled) (always_fails err_400)
     = ((None, Some err_400), \<lparr>calls = 1, waits = []\<rparr>)"
    using nonretryable_error_returned_at_once[where r = test_retrier and rnd = no_jitter
        and ctx = "cancelled_during_attempt 0 Canceled" and fn = "always_fails err_400"
        and n = 0 and resp = None and err = err_400] r0
    by (simp add: always_fails_def) (simp add: err_400_def)
  have 2: "DoRaw test_retrier no_jitter background (fails_then 1 err_503 (None, Some req_error))
     = ((None, Some req_error), \<lparr>calls = 2, waits = [10000000]\<rparr>)"
    using nonretryable_error_returned_at_once[where r = test_retrier and rnd = no_jitter
        and ctx = background and fnRaw = "fails_then 1 err_503 (None, Some req_error)"
        and n = 1 and raw = None and err = req_error] r1
    by (simp add: ev) (simp add: req_error_def)
  from 1 2 show ?thesis by blast
qed

section \<open>Cancellation during a backoff wait\<close>

text \<open>
  C7. Let n \<ge> 1 attempts have been made and retried, and let the context be cancelled (or
  its deadline expire) during the backoff wait before attempt n + 1, so that the wait's
  select receives from ctx.Done() before its timer fires. Then Do and DoRaw return the
  context's error without making attempt n + 1: the trace holds exactly n calls of fn (and
  the n waits entered, the interrupted one last).
\<close>

theorem cancelled_in_backoff_wait:
  fixes fn :: "Response attempt_fn" and fnRaw :: "RawResponse attempt_fn"
  shows
    "(0 < n \<and> int n \<le> maxRetries r \<and> (\<forall>i<n. retried r rnd ctx fn i)
        \<and> doneFirst ctx (int n) (backoff_at r rnd n) = Some e
      \<longrightarrow> Do r rnd ctx fn
            = ((None, Some (CtxErr e)),
               \<lparr>calls = n, waits = map (backoff_at r rnd) [1..<Suc n]\<rparr>))
   \<and> (0 < n \<and> int n \<le> maxRetries r \<and> (\<forall>i<n. retried r rnd ctx fnRaw i)
        \<and> doneFirst ctx (int n) (backoff_at r rnd n) = Some e
      \<longrightarrow> DoRaw r rnd ctx fnRaw
            = ((None, Some (CtxErr e)),
               \<lparr>calls = n, waits = map (backoff_at r rnd) [1..<Suc n]\<rparr>))"
  using Do_loop_cancel_wait[of n r rnd ctx fn e] Do_loop_cancel_wait[of n r rnd ctx fnRaw e]
  by (simp add: Do_def DoRaw_def DoRaw_loop_eq trace_at_def)

theorem cancelled_in_backoff_wait_witness:
  "Do test_retrier no_jitter (cancelled_during_wait 2 DeadlineExceeded) (always_fails err_503)
     = ((None, Some (CtxErr DeadlineExceeded)), \<lparr>calls = 2, waits = [10000000, 20000000]\<rparr>)
   \<and> DoRaw test_retrier no_jitter (cancelled_during_wait 2 DeadlineExceeded)
       (always_fails err_503)
     = ((None, Some (CtxErr DeadlineExceeded)), \<lparr>calls = 2, waits = [10000000, 20000000]\<rparr>)"
proof -
  have p: "\<forall>i<2. retried test_retrier no_jitter (cancelled_during_wait 2 DeadlineExceeded)
             (always_fails err_503 :: Response attempt_fn) i"
    and q: "\<forall>i<2. retried test_retrier no_jitter (cancelled_during_wait 2 DeadlineExceeded)
             (always_fails err_503 :: RawResponse attempt_fn) i"
    by (simp_all add: retried_def wait_passes_def cancelled_during_wait_def fails_retryably_def
        always_fails_def shouldRetry_503)
  have d: "doneFirst (cancelled_during_wait 2 DeadlineExceeded) (int 2)
             (backoff_at test_retrier no_jitter 2) = Some DeadlineExceeded"
    by (simp add: cancelled_during_wait_def)
  have m: "int 2 \<le> maxRetries test_retrier"
    by (simp add: test_retrier_def)
  note ev = backoff_at_def test_retrier_def no_jitter_def calculateBackoff_def
    math_Pow_def Duration_of_def upt_rec
  show ?thesis
    using cancelled_in_backoff_wait[where n = 2 and r = test_retrier and rnd = no_jitter
        and ctx = "cancelled_during_wait 2 DeadlineExceeded" and fn = "always_fails err_503"
        and e = DeadlineExceeded and fnRaw = "always_fails err_503"] p q d m
    by (simp add: ev)
qed

section \<open>Cancellation observed after a retryable failure\<close>

text \<open>
  C10. If the loop reaches attempt n + 1, that attempt fails with a retryable API error and
  ctx.Err() is not nil at that moment, Do and DoRaw return the context's error instead of
  the API error, and make no further call of fn and enter no further wait: the trace holds
  exactly the n + 1 calls and the n waits before them. This includes the last attempt of
  the budget.
\<close>

theorem cancelled_after_retryable_failure:
  fixes fn :: "Response attempt_fn" and fnRaw :: "RawResponse attempt_fn"
  shows
    "(reaches r rnd ctx fn n \<and> fn n = (resp, Some (APIErr a)) \<and> Retryable a
        \<and> errAfter ctx (int n) = Some e
      \<longrightarrow> Do r rnd ctx fn
            = ((None, Some (CtxErr e)),
               \<lparr>calls = Suc n, waits = map (backoff_at r rnd) [1..<Suc n]\<rparr>))
   \<and> (reaches r rnd ctx fnRaw n \<and> fnRaw n = (raw, Some (APIErr a)) \<and> Retryable a
        \<and> errAfter ctx (int n) = Some e
      \<longrightarrow> DoRaw r rnd ctx fnRaw
            = ((None, Some (CtxErr e)),
               \<lparr>calls = Suc n, waits = map (backoff_at r rnd) [1..<Suc n]\<rparr>))"
proof -
  have sr: "shouldRetry (APIErr a)" if "Retryable a"
    using that by (simp add: shouldRetry_def)
  show ?thesis
    by (auto simp: Do_def DoRaw_def DoRaw_loop_eq trace_at_def
        dest!: sr dest: Do_loop_cancel_after)
qed

theorem cancelled_after_retryable_failure_witness:
  "Do test_retrier no_jitter (cancelled_during_attempt 1 Canceled) (always_fails err_503)
     = ((None, Some (CtxErr Canceled)), \<lparr>calls = 2, waits = [10000000]\<rparr>)
   \<and> DoRaw test_retrier no_jitter (cancelled_during_attempt 1 Canceled) (always_fails err_503)
     = ((None, Some (CtxErr Canceled)), \<lparr>calls = 2, waits = [10000000]\<rparr>)"
proof -
  let ?a = "\<lparr>Code = [], Message = ''Service Unavailable'', Params = [], StatusCode = 503,
             RequestID = []\<rparr>"
  have p: "reaches test_retrier no_jitter (cancelled_during_attempt 1 Canceled)
             (always_fails err_503 :: Response attempt_fn) 1"
    and q: "reaches test_retrier no_jitter (cancelled_during_attempt 1 Canceled)
             (always_fails err_503 :: RawResponse attempt_fn) 1"
    by (simp_all add: reaches_def retried_def wait_passes_def cancelled_during_attempt_def
        fails_retryably_def always_fails_def shouldRetry_503 test_retrier_def)
  have a: "Retryable ?a"
    by (simp add: Retryable_def isRetryableStatus_def StatusServiceUnavailable_def)
  have e: "errAfter (cancelled_during_attempt 1 Canceled) (int 1) = Some Canceled"
    by (simp add: cancelled_during_attempt_def)
  have f: "(always_fails err_503 :: Response attempt_fn) 1 = (None, Some (APIErr ?a))"
    and g: "(always_fails err_503 :: RawResponse attempt_fn) 1 = (None, Some (APIErr ?a))"
    by (simp_all add: always_fails_def err_503_def)
  note ev = backoff_at_def test_retrier_def no_jitter_def calculateBackoff_def
    math_Pow_def Duration_of_def upt_rec
  note t = cancelled_after_retryable_failure[where r = test_retrier and rnd = no_jitter
        and ctx = "cancelled_during_attempt 1 Canceled" and fn = "always_fails err_503"
        and fnRaw = "always_fails err_503" and n = 1 and resp = None and raw = None
        and a = ?a and e = Canceled]
  have 1: "Do test_retrier no_jitter (cancelled_during_attempt 1 Canceled) (always_fails err_503)
     = ((None, Some (CtxErr Canceled)), \<lparr>calls = 2, waits = [10000000]\<rparr>)"
    using t p a e f by (simp add: ev)
  have 2: "DoRaw test_retrier no_jitter (cancelled_during_attempt 1 Canceled)
             (always_fails err_503)
     = ((None, Some (CtxErr Canceled)), \<lparr>calls = 2, waits = [10000000]\<rparr>)"
    using t q a e g by (simp add: ev)
  from 1 2 show ?thesis by blast
qed

section \<open>Backoff duration\<close>










section \<open>Raw mode\<close>





section \<open>Error classification\<close>

text \<open>
  C6. For every failed exchange, ParseError yields an API error with the status and the
  request id of the response such that: if decoding the body returns an error, the message
  is the body text, or the status text of the HTTP status when the body is empty; and if no
  error code is present after decoding, the code is INVALID_API_KEY for status 401,
  INSUFFICIENT_CREDITS for 402, RATE_LIMIT_EXCEEDED for 429, INTERNAL_ERROR for 500 and
  empty for every other status, while a code that is present is kept.
\<close>

theorem ParseError_message_and_code:
  "(dec_err (json_Unmarshal lib body) \<noteq> None \<longrightarrow>
      Message (ParseError lib resp body)
        = (if body = [] then http_StatusText lib (hr_StatusCode resp) else body))
   \<and> (dec_Code (json_Unmarshal lib body) = [] \<longrightarrow>
        Code (ParseError lib resp body)
          = (if hr_StatusCode resp = 401 then ''INVALID_API_KEY''
             else if hr_StatusCode resp = 402 then ''INSUFFICIENT_CREDITS''
             else if hr_StatusCode resp = 429 then ''RATE_LIMIT_EXCEEDED''
             else if hr_StatusCode resp = 500 then ''INTERNAL_ERROR''
             else []))
   \<and> (dec_Code (json_Unmarshal lib body) \<noteq> [] \<longrightarrow>
        Code (ParseError lib resp body) = dec_Code (json_Unmarshal lib body))
   \<and> StatusCode (ParseError lib resp body) = hr_StatusCode resp
   \<and> RequestID (ParseError lib resp body) = Header_Get (hr_Header resp) ''X-Reve-Request-Id''"
  by (simp add: ParseError_def Let_def StatusUnauthorized_def StatusPaymentRequired_def
      StatusTooManyRequests_def StatusInternalServerError_def ErrCodeInvalidAPIKey_def
      ErrCodeInsufficientFunds_def ErrCodeRateLimit_def ErrCodeInternal_def)

theorem ParseError_message_and_code_witness:
  "Message (ParseError (test_lib (Inl [])) (resp_failed 503 []) []) = ''Service Unavailable''
   \<and> Code (ParseError (test_lib (Inl [])) (resp_failed 503 []) []) = []
   \<and> Message (ParseError (test_lib (Inl [])) (resp_failed 401 ''denied'') ''denied'') = ''denied''
   \<and> Code (ParseError (test_lib (Inl [])) (resp_failed 401 ''denied'') ''denied'')
       = ''INVALID_API_KEY''
   \<and> Code (ParseError (test_lib (Inl [])) (resp_failed 400 [])
             ''{error_code:PROMPT_TOO_LONG,message:too long}'') = ''PROMPT_TOO_LONG''"
proof -
  note ev = test_lib_def resp_failed_def
  have 1: "Message (ParseError (test_lib (Inl [])) (resp_failed 503 []) []) = ''Service Unavailable''
     \<and> Code (ParseError (test_lib (Inl [])) (resp_failed 503 []) []) = []"
    using ParseError_message_and_code[of "test_lib (Inl [])" "[]" "resp_failed 503 []"]
    by (simp add: ev)
  have 2: "Message (ParseError (test_lib (Inl [])) (resp_failed 401 ''denied'') ''denied'')
       = ''denied''
     \<and> Code (ParseError (test_lib (Inl [])) (resp_failed 401 ''denied'') ''denied'')
       = ''INVALID_API_KEY''"
    using ParseError_message_and_code[of "test_lib (Inl [])" "''denied''"
        "resp_failed 401 ''denied''"]
    by (simp add: ev)
  have 3: "Code (ParseError (test_lib (Inl [])) (resp_failed 400 [])
             ''{error_code:PROMPT_TOO_LONG,message:too long}'') = ''PROMPT_TOO_LONG''"
    using ParseError_message_and_code[of "test_lib (Inl [])"
        "''{error_code:PROMPT_TOO_LONG,message:too long}''" "resp_failed 400 []"]
    by (simp add: ev)
  from 1 2 3 show ?thesis by blast
qed

section \<open>Re-readable request body\<close>



end
